theory Spec2Isabelle
  imports Complex_Main "HOL-Library.Word"
begin

section \<open>Python values, errors and objects\<close>

text \<open>
  The notebooks are Python 3. A Python \<open>str\<close> is a sequence of Unicode code points,
  so a string value is a list of code points (naturals); \<open>str\<close> turns a literal of
  the theory into that list. Attribute names are identifiers of the source text and
  stay HOL strings.
\<close>

type_synonym pystr = "nat list"

definition str :: "string \<Rightarrow> pystr" where
  "str s = map of_char s"

text \<open>
  The values the object-oriented notebook passes around. A float stands for the real
  number it denotes (the notebook stores and shows floats, it never computes with
  them); \<open>PRef\<close> is a reference to an object on the heap.
\<close>

datatype pyval =
    PNone
  | PBool bool
  | PInt int
  | PFloat real
  | PStr pystr
  | PRef nat

datatype error = TypeError | AttributeError | IndexError | KeyError | ValueError

text \<open>
  An attribute dictionary (\<open>__dict__\<close>) maps attribute names to values. The heap
  holds the mutable objects: lists, classes (their data attributes) and instances
  (the reference of their class and their own dictionary). Allocation hands out
  addresses in increasing order.
\<close>

type_synonym pydict = "string \<rightharpoonup> pyval"

datatype heapobj =
    ListObj "pyval list"
  | ClassObj pydict
  | InstanceObj nat pydict

record pystate =
  heap :: "nat \<rightharpoonup> heapobj"
  next_addr :: nat

definition alloc :: "heapobj \<Rightarrow> pystate \<Rightarrow> nat \<times> pystate" where
  "alloc obj s =
     (next_addr s, s\<lparr>heap := (heap s)(next_addr s \<mapsto> obj), next_addr := Suc (next_addr s)\<rparr>)"

text \<open>
  \<open>ref.attr\<close> read on an instance: the instance's own dictionary first, then the
  data attributes of its class; AttributeError when neither has it.
\<close>

definition class_attr :: "pystate \<Rightarrow> nat \<Rightarrow> string \<Rightarrow> error + pyval" where
  "class_attr s cls attr =
     (case heap s cls of
        Some (ClassObj cd) \<Rightarrow>
          (case cd attr of None \<Rightarrow> Inl AttributeError | Some v \<Rightarrow> Inr v)
      | _ \<Rightarrow> Inl AttributeError)"

definition getattr :: "pystate \<Rightarrow> nat \<Rightarrow> string \<Rightarrow> error + pyval" where
  "getattr s ref attr =
     (case heap s ref of
        Some (InstanceObj cls d) \<Rightarrow>
          (case d attr of None \<Rightarrow> class_attr s cls attr | Some v \<Rightarrow> Inr v)
      | _ \<Rightarrow> Inl AttributeError)"

text \<open>
  \<open>ref.attr = v\<close> on an instance writes the instance's own dictionary, whatever the
  class has under that name.
\<close>

definition setattr :: "nat \<Rightarrow> string \<Rightarrow> pyval \<Rightarrow> pystate \<Rightarrow> error + pystate" where
  "setattr ref attr v s =
     (case heap s ref of
        Some (InstanceObj cls d) \<Rightarrow>
          Inr (s\<lparr>heap := (heap s)(ref \<mapsto> InstanceObj cls (d(attr \<mapsto> v)))\<rparr>)
      | _ \<Rightarrow> Inl AttributeError)"

text \<open>A class statement with its data attributes, and the creation of an instance.\<close>

definition new_class :: "pydict \<Rightarrow> pystate \<Rightarrow> nat \<times> pystate" where
  "new_class cd s = alloc (ClassObj cd) s"

definition new_instance :: "nat \<Rightarrow> pydict \<Rightarrow> pystate \<Rightarrow> nat \<times> pystate" where
  "new_instance cls d s = alloc (InstanceObj cls d) s"

subsection \<open>Complex\<close>

text \<open>
  \<^verbatim>\<open>
  class Complex:
      def __init__(self, realpart, imagpart):
          self.r = realpart
          self.i = imagpart
  \<close>
  \<open>__init__\<close> works on the dictionary of the fresh instance.
\<close>

definition Complex_init :: "pydict \<Rightarrow> pyval \<Rightarrow> pyval \<Rightarrow> pydict" where
  "Complex_init self realpart imagpart = (self(''r'' \<mapsto> realpart))(''i'' \<mapsto> imagpart)"

text \<open>
  The call \<open>Complex(*args)\<close> with positional arguments: \<open>__init__\<close> takes exactly two
  arguments besides \<open>self\<close>; any other number raises TypeError and nothing is
  returned.
\<close>

definition Complex_call :: "nat \<Rightarrow> pyval list \<Rightarrow> pystate \<Rightarrow> error + (nat \<times> pystate)" where
  "Complex_call cls args s =
     (case args of
        [realpart, imagpart] \<Rightarrow>
          Inr (new_instance cls (Complex_init Map.empty realpart imagpart) s)
      | _ \<Rightarrow> Inl TypeError)"

text \<open>
  The cells \<open>x = Complex()\<close> and \<open>x = Complex(1.1, -2.3)\<close>, after the class statement:
  a cell has no handler, so an exception of the call is the outcome of the cell.
  The result of a successful cell is the reference bound to \<open>x\<close> and the state.
\<close>

definition cell_x_Complex :: "pyval list \<Rightarrow> pystate \<Rightarrow> error + (nat \<times> pystate)" where
  "cell_x_Complex args s0 =
     (let (Complex, s1) = new_class Map.empty s0 in
      case Complex_call Complex args s1 of
        Inl e \<Rightarrow> Inl e
      | Inr (x, s2) \<Rightarrow> Inr (x, s2))"

subsection \<open>Dog\<close>

text \<open>
  \<^verbatim>\<open>
  class Dog:
      kind = 'canine'
      tricks = []
      def __init__(self, name):
          self.name = name
      def add_trick(self, trick):
          self.tricks.append(trick)
  \<close>
  The class statement evaluates \<open>[]\<close> once: one list object, referred to by the class
  attribute \<open>tricks\<close>.
\<close>

definition class_Dog :: "pystate \<Rightarrow> nat \<times> pystate" where
  "class_Dog s =
     (let (tricks, s1) = alloc (ListObj []) s in
      new_class [''kind'' \<mapsto> PStr (str ''canine''), ''tricks'' \<mapsto> PRef tricks] s1)"

definition Dog_init :: "pydict \<Rightarrow> pyval \<Rightarrow> pydict" where
  "Dog_init self name = self(''name'' \<mapsto> name)"

definition Dog_call :: "nat \<Rightarrow> pyval \<Rightarrow> pystate \<Rightarrow> nat \<times> pystate" where
  "Dog_call cls name s = new_instance cls (Dog_init Map.empty name) s"

text \<open>\<open>target.append(v)\<close>: only a list has the method; the list object is changed in place.\<close>

definition list_append :: "pyval \<Rightarrow> pyval \<Rightarrow> pystate \<Rightarrow> error + pystate" where
  "list_append target v s =
     (case target of
        PRef a \<Rightarrow>
          (case heap s a of
             Some (ListObj xs) \<Rightarrow> Inr (s\<lparr>heap := (heap s)(a \<mapsto> ListObj (xs @ [v]))\<rparr>)
           | _ \<Rightarrow> Inl AttributeError)
      | _ \<Rightarrow> Inl AttributeError)"

definition Dog_add_trick :: "nat \<Rightarrow> pyval \<Rightarrow> pystate \<Rightarrow> error + pystate" where
  "Dog_add_trick self trick s =
     (case getattr s self ''tricks'' of
        Inl e \<Rightarrow> Inl e
      | Inr t \<Rightarrow> list_append t trick s)"

text \<open>
  The cell, with the names and tricks as parameters:
  \<^verbatim>\<open>
  d = Dog('Fido')
  e = Dog('Buddy')
  d.add_trick('roll over')
  e.add_trick('play dead')
  e.kind = 'super-dog'
  \<close>
  It returns the references bound to \<open>d\<close> and \<open>e\<close> and the state.
\<close>

definition cell_Dog :: "pyval \<Rightarrow> pyval \<Rightarrow> pyval \<Rightarrow> pyval \<Rightarrow> pystate \<Rightarrow> error + (nat \<times> nat \<times> pystate)" where
  "cell_Dog n1 n2 t1 t2 s0 =
     (let (Dog, s1) = class_Dog s0;
          (d, s2) = Dog_call Dog n1 s1;
          (e, s3) = Dog_call Dog n2 s2
      in case Dog_add_trick d t1 s3 of
           Inl err \<Rightarrow> Inl err
         | Inr s4 \<Rightarrow>
             (case Dog_add_trick e t2 s4 of
                Inl err \<Rightarrow> Inl err
              | Inr s5 \<Rightarrow>
                  (case setattr e ''kind'' (PStr (str ''super-dog'')) s5 of
                     Inl err \<Rightarrow> Inl err
                   | Inr s6 \<Rightarrow> Inr (d, e, s6))))"

text \<open>What \<open>print(ref.attr)\<close> shows for a list attribute: the elements of the list object.\<close>

definition list_attr :: "pystate \<Rightarrow> nat \<Rightarrow> string \<Rightarrow> error + pyval list" where
  "list_attr s ref attr =
     (case getattr s ref attr of
        Inl e \<Rightarrow> Inl e
      | Inr (PRef a) \<Rightarrow>
          (case heap s a of Some (ListObj xs) \<Rightarrow> Inr xs | _ \<Rightarrow> Inl TypeError)
      | Inr _ \<Rightarrow> Inl TypeError)"

subsection \<open>Sequence, Dna and Protein\<close>

text \<open>
  \<^verbatim>\<open>
  class Sequence:
      def __init__(self, name, sequence):
          self.name = name
          self.sequence = sequence
  \<close>
  \<open>Dna\<close> and \<open>Protein\<close> inherit this \<open>__init__\<close>.
\<close>

definition Sequence_init :: "pydict \<Rightarrow> pyval \<Rightarrow> pyval \<Rightarrow> pydict" where
  "Sequence_init self name sequence = (self(''name'' \<mapsto> name))(''sequence'' \<mapsto> sequence)"

definition Dna_call :: "nat \<Rightarrow> pyval \<Rightarrow> pyval \<Rightarrow> pystate \<Rightarrow> nat \<times> pystate" where
  "Dna_call cls name sequence s = new_instance cls (Sequence_init Map.empty name sequence) s"

definition Protein_call :: "nat \<Rightarrow> pyval \<Rightarrow> pyval \<Rightarrow> pystate \<Rightarrow> nat \<times> pystate" where
  "Protein_call cls name sequence s = new_instance cls (Sequence_init Map.empty name sequence) s"

text \<open>
  \<open>str.maketrans(x, y)\<close> maps the code point of each character of \<open>x\<close> to that of the
  character of \<open>y\<close> at the same position (a later pair wins); ValueError when the
  lengths differ. \<open>s.translate(table)\<close> replaces every character the table maps and
  keeps the others.
\<close>

definition maketrans :: "pystr \<Rightarrow> pystr \<Rightarrow> error + (nat \<rightharpoonup> nat)" where
  "maketrans x y =
     (if length x \<noteq> length y then Inl ValueError
      else Inr (fold (\<lambda>(k, v) m. m(k \<mapsto> v)) (zip x y) Map.empty))"

definition translate :: "(nat \<rightharpoonup> nat) \<Rightarrow> pystr \<Rightarrow> pystr" where
  "translate table s = map (\<lambda>c. case table c of None \<Rightarrow> c | Some d \<Rightarrow> d) s"

text \<open>
  \<^verbatim>\<open>
  def reverse_complement(self):
      translation_table = str.maketrans('ACGTacgt', 'TGCAtgca')
      revcomp_sequence = self.sequence.translate(translation_table)[::-1]
      return revcomp_sequence
  \<close>
  The method returns its value together with the state it leaves. Of the values of
  the model only a string has \<open>translate\<close>.
\<close>

definition Dna_reverse_complement :: "nat \<Rightarrow> pystate \<Rightarrow> error + (pyval \<times> pystate)" where
  "Dna_reverse_complement self s =
     (case maketrans (str ''ACGTacgt'') (str ''TGCAtgca'') of
        Inl e \<Rightarrow> Inl e
      | Inr translation_table \<Rightarrow>
          (case getattr s self ''sequence'' of
             Inl e \<Rightarrow> Inl e
           | Inr (PStr sq) \<Rightarrow> Inr (PStr (rev (translate translation_table sq)), s)
           | Inr _ \<Rightarrow> Inl AttributeError))"

text \<open>
  The complement of a base as the specification words it: A and T are exchanged, C
  and G are exchanged, upper case stays upper case and lower case stays lower case.
\<close>

definition complement_base :: "nat \<Rightarrow> nat" where
  "complement_base c =
     (if c = of_char CHR ''A'' then of_char CHR ''T''
      else if c = of_char CHR ''T'' then of_char CHR ''A''
      else if c = of_char CHR ''C'' then of_char CHR ''G''
      else if c = of_char CHR ''G'' then of_char CHR ''C''
      else if c = of_char CHR ''a'' then of_char CHR ''t''
      else if c = of_char CHR ''t'' then of_char CHR ''a''
      else if c = of_char CHR ''c'' then of_char CHR ''g''
      else if c = of_char CHR ''g'' then of_char CHR ''c''
      else c)"

text \<open>
  The first \<open>Protein\<close> class has no \<open>__eq__\<close>: \<open>p1 == p2\<close> is the default of
  \<open>object\<close>, the identity of the two references.
\<close>

definition object_eq :: "nat \<Rightarrow> nat \<Rightarrow> bool" where
  "object_eq self other_instance = (self = other_instance)"

text \<open>
  \<^verbatim>\<open>
  def __eq__(self, other_instance):
      return self.sequence == other_instance.sequence
  \<close>
  The method reads the two attributes and returns what \<open>==\<close> gives on their values.
  That \<open>==\<close> is the operator of the language on arbitrary objects (numbers compare
  by value, lists element by element, instances through their own \<open>__eq__\<close>, and it
  may raise): it is the parameter \<open>value_eq\<close>, a function of the state and the two
  values.
\<close>

definition Protein_eq ::
  "(pystate \<Rightarrow> pyval \<Rightarrow> pyval \<Rightarrow> error + pyval) \<Rightarrow> pystate \<Rightarrow> nat \<Rightarrow> nat \<Rightarrow> error + pyval" where
  "Protein_eq value_eq s self other_instance =
     (case getattr s self ''sequence'' of
        Inl e \<Rightarrow> Inl e
      | Inr a \<Rightarrow>
          (case getattr s other_instance ''sequence'' of
             Inl e \<Rightarrow> Inl e
           | Inr b \<Rightarrow> value_eq s a b))"

text \<open>
  The cell \<open>p1 = Protein(n1, q1); p2 = Protein(n2, q2)\<close> after the class statement of
  the redefined \<open>Protein\<close>.
\<close>

definition cell_Protein :: "pyval \<Rightarrow> pyval \<Rightarrow> pyval \<Rightarrow> pyval \<Rightarrow> pystate \<Rightarrow> nat \<times> nat \<times> pystate" where
  "cell_Protein n1 q1 n2 q2 s0 =
     (let (Protein, s1) = new_class Map.empty s0;
          (p1, s2) = Protein_call Protein n1 q1 s1;
          (p2, s3) = Protein_call Protein n2 q2 s2
      in (p1, p2, s3))"

subsection \<open>Reverser and name mangling\<close>

text \<open>
  Inside a class body Python rewrites an identifier that starts with two underscores
  and does not end with two underscores (and has no dot) to the class name, stripped
  of its leading underscores and prefixed with one underscore, followed by the
  identifier; a class name of underscores only leaves it as it is. Code outside a
  class body is not rewritten.
\<close>

definition mangle :: "string \<Rightarrow> string \<Rightarrow> string" where
  "mangle cls ident =
     (let stripped = dropWhile (\<lambda>c. c = CHR ''_'') cls in
      if take 2 ident = ''__''
         \<and> drop (length ident - 2) ident \<noteq> ''__''
         \<and> CHR ''.'' \<notin> set ident
         \<and> stripped \<noteq> []
      then ''_'' @ stripped @ ident
      else ident)"

text \<open>
  \<^verbatim>\<open>
  class Reverser():
      def __init__(self, name):
          self.public = name
          self.__private = name[::-1]
      def get_reverse(self):
          return self.__private
  \<close>
  The attribute names of the class body go through \<open>mangle\<close>. The argument is a
  string, and \<open>name[::-1]\<close> is the string of its code points in reverse order.
\<close>

definition Reverser_init :: "pydict \<Rightarrow> pystr \<Rightarrow> pydict" where
  "Reverser_init self name =
     (self(mangle ''Reverser'' ''public'' \<mapsto> PStr name))
       (mangle ''Reverser'' ''__private'' \<mapsto> PStr (rev name))"

definition Reverser_call :: "nat \<Rightarrow> pystr \<Rightarrow> pystate \<Rightarrow> nat \<times> pystate" where
  "Reverser_call cls name s = new_instance cls (Reverser_init Map.empty name) s"

definition Reverser_get_reverse :: "nat \<Rightarrow> pystate \<Rightarrow> error + pyval" where
  "Reverser_get_reverse self s = getattr s self (mangle ''Reverser'' ''__private'')"

text \<open>
  The cell \<open>x = Reverser(name)\<close> after the class statement, and the same cell followed
  by \<open>x.__private = v\<close>. The assignment stands outside the class body, so its
  attribute name is not mangled.
\<close>

definition cell_Reverser_new :: "pystr \<Rightarrow> pystate \<Rightarrow> nat \<times> pystate" where
  "cell_Reverser_new name s0 =
     (let (Reverser, s1) = new_class Map.empty s0 in Reverser_call Reverser name s1)"

definition cell_Reverser :: "pystr \<Rightarrow> pyval \<Rightarrow> pystate \<Rightarrow> error + (nat \<times> pystate)" where
  "cell_Reverser name v s0 =
     (let (x, s2) = cell_Reverser_new name s0
      in case setattr x ''__private'' v s2 of
           Inl e \<Rightarrow> Inl e
         | Inr s3 \<Rightarrow> Inr (x, s3))"

text \<open>The state of a fresh interpreter: nothing allocated.\<close>

definition init_state :: pystate where
  "init_state = \<lparr>heap = Map.empty, next_addr = 0\<rparr>"

section \<open>The image-analysis notebook\<close>

subsection \<open>Images and element-wise operations\<close>

text \<open>
  A two-dimensional array is the list of its rows. All images of the pipeline derive
  from the channels of one input image and have its shape. numpy broadcasts operands
  of unequal shapes where it can and raises ValueError where it cannot; the model
  has the error for every pair of unequal shapes. A boolean mask used as an index
  must have the shape of the array it indexes (IndexError otherwise).
\<close>

type_synonym 'a image = "'a list list"

definition same_shape :: "'a image \<Rightarrow> 'b image \<Rightarrow> bool" where
  "same_shape a b = (map length a = map length b)"

definition inside :: "'a image \<Rightarrow> nat \<Rightarrow> nat \<Rightarrow> bool" where
  "inside a r c = (r < length a \<and> c < length (a ! r))"

text \<open>\<open>a[r, c]\<close>, read at a position inside the image.\<close>

definition pixel :: "'a image \<Rightarrow> nat \<Rightarrow> nat \<Rightarrow> 'a" where
  "pixel a r c = a ! r ! c"

text \<open>All elements of the array, row by row (\<open>a.ravel()\<close>).\<close>

definition pixels :: "'a image \<Rightarrow> 'a list" where
  "pixels a = concat a"

definition img_map :: "('a \<Rightarrow> 'b) \<Rightarrow> 'a image \<Rightarrow> 'b image" where
  "img_map f a = map (map f) a"

definition elementwise :: "('a \<Rightarrow> 'b \<Rightarrow> 'c) \<Rightarrow> 'a image \<Rightarrow> 'b image \<Rightarrow> error + 'c image" where
  "elementwise f a b =
     (if same_shape a b then Inr (map2 (map2 f) a b) else Inl ValueError)"

text \<open>\<open>a[selected] = v\<close> for a boolean mask, returning the array after the assignment.\<close>

definition masked_assign :: "'a image \<Rightarrow> bool image \<Rightarrow> 'a \<Rightarrow> error + 'a image" where
  "masked_assign a selected v =
     (if same_shape a selected then Inr (map2 (map2 (\<lambda>x m. if m then v else x)) a selected)
      else Inl IndexError)"

subsection \<open>Adaptive background subtraction and threshold\<close>

text \<open>
  \<^verbatim>\<open>
  nuc_smooth_bg = ndi.uniform_filter(nuc_smooth, size=20)
  nuc_smooth_bgsub = nuc_smooth - nuc_smooth_bg
  nuc_smooth_bgsub[nuc_smooth < nuc_smooth_bg] = 0
  \<close>
  The filters of \<open>scipy.ndimage\<close> return arrays of the dtype of their input, an
  unsigned integer type for the image file: a pixel is a word of that width and the
  subtraction wraps around. \<open>nuc_smooth_bg\<close>, the result of the library's uniform
  filter, is an input here.
\<close>

definition background_subtraction ::
  "'a::len word image \<Rightarrow> 'a word image \<Rightarrow> error + 'a word image" where
  "background_subtraction nuc_smooth nuc_smooth_bg =
     (case elementwise (\<lambda>x y. x - y) nuc_smooth nuc_smooth_bg of
        Inl e \<Rightarrow> Inl e
      | Inr nuc_smooth_bgsub \<Rightarrow>
          (case elementwise (\<lambda>x y. x < y) nuc_smooth nuc_smooth_bg of
             Inl e \<Rightarrow> Inl e
           | Inr below \<Rightarrow> masked_assign nuc_smooth_bgsub below 0))"

text \<open>\<open>nuc_mask = nuc_smooth_bgsub > 10\<close>\<close>

definition apply_threshold :: "'a::len word image \<Rightarrow> bool image" where
  "apply_threshold nuc_smooth_bgsub = img_map (\<lambda>v. 10 < v) nuc_smooth_bgsub"

subsection \<open>Seeds and watershed\<close>

text \<open>
  The label image of \<open>ndi.label\<close> and the result of the watershed are arrays of
  signed 32-bit integers: a label is a 32-bit word, read as a signed number by
  \<open>sint\<close>. \<open>a.max()\<close> is the greatest element as a signed number and raises
  ValueError on an array without elements.
\<close>

type_synonym int32 = "32 word"

definition smax :: "int32 \<Rightarrow> int32 \<Rightarrow> int32" where
  "smax a b = (if sint a \<le> sint b then b else a)"

definition img_max :: "int32 image \<Rightarrow> error + int32" where
  "img_max a =
     (case pixels a of
        [] \<Rightarrow> Inl ValueError
      | x # xs \<Rightarrow> Inr (fold smax xs x))"

text \<open>
  \<open>nuc_labeled.max()+1\<close> adds the Python integer 1 to a 32-bit scalar. Which type the
  sum has depends on the numpy at hand: it stays a 32-bit integer and wraps around
  (numpy 2, and older versions where the default integer has 32 bits), or it is a
  64-bit integer, which holds the sum (older versions where the default integer has
  64 bits). The value of the scalar is an integer in both cases.
\<close>

datatype promotion = KeepInt32 | WidenInt64

definition max_plus_one :: "promotion \<Rightarrow> int32 \<Rightarrow> int" where
  "max_plus_one pr m =
     (case pr of
        KeepInt32 \<Rightarrow> sint (m + 1)
      | WidenInt64 \<Rightarrow> sint m + 1)"

text \<open>
  \<^verbatim>\<open>
  seeds = np.copy(nuc_labeled)
  seeds[act_bgsub==0] = nuc_labeled.max()+1
  \<close>
  The assignment casts the scalar to the 32 bits of the array, keeping its low bits.
\<close>

definition prepare_seeds :: "promotion \<Rightarrow> int32 image \<Rightarrow> 'a::zero image \<Rightarrow> error + int32 image" where
  "prepare_seeds pr nuc_labeled act_bgsub =
     (case img_max nuc_labeled of
        Inl e \<Rightarrow> Inl e
      | Inr m \<Rightarrow>
          masked_assign nuc_labeled (img_map (\<lambda>v. v = 0) act_bgsub)
            (word_of_int (max_plus_one pr m)))"

text \<open>
  \<open>act_ws[act_ws==nuc_labeled.max()+1] = 0\<close>: the comparison of a pixel with the scalar
  is the comparison of their values.
\<close>

definition remove_background :: "promotion \<Rightarrow> int32 image \<Rightarrow> int32 image \<Rightarrow> error + int32 image" where
  "remove_background pr nuc_labeled act_ws =
     (case img_max nuc_labeled of
        Inl e \<Rightarrow> Inl e
      | Inr m \<Rightarrow>
          masked_assign act_ws (img_map (\<lambda>p. sint p = max_plus_one pr m) act_ws) 0)"

text \<open>
  \<^verbatim>\<open>
  act_ws = segmentation.watershed(act_sobel, seeds)
  act_ws[act_ws==nuc_labeled.max()+1] = 0
  \<close>
  The watershed of \<open>skimage\<close> is a parameter: a function from the edge image and the
  seeds to the labelled image.
\<close>

definition cell_segmentation ::
  "promotion \<Rightarrow> ('b image \<Rightarrow> int32 image \<Rightarrow> int32 image) \<Rightarrow> 'b image \<Rightarrow> int32 image
     \<Rightarrow> 'a::zero image \<Rightarrow> error + int32 image" where
  "cell_segmentation pr watershed act_sobel nuc_labeled act_bgsub =
     (case prepare_seeds pr nuc_labeled act_bgsub of
        Inl e \<Rightarrow> Inl e
      | Inr seeds \<Rightarrow> remove_background pr nuc_labeled (watershed act_sobel seeds))"

subsection \<open>Region properties as a dictionary\<close>

text \<open>
  The scalar values of region properties are integers (labels, areas) and floats
  (intensities, lengths); a float stands for the real number it denotes. A value of a
  region property is a tuple, an array or anything else (a scalar); the test
  \<open>type(v) in [tuple, np.ndarray]\<close> tells the first two from the rest. A region of
  \<open>measure.regionprops\<close> is iterated as its property names and indexed by a property
  name (KeyError for a name it does not have): the list of its names and values, in
  the order of the iteration.
\<close>

datatype scalar = IntScalar int | FloatScalar real

datatype propval = Scalar scalar | PTuple "scalar list" | NdArray "scalar list"





text \<open>
  A Python dictionary keeps its keys in the order of their first insertion:
  \<open>d[k] = v\<close> replaces the value of a key that is there and appends a new key.
\<close>

type_synonym propdict = "(string \<times> propval list) list"










subsection \<open>Ground truth of the classifier\<close>

text \<open>
  \<^verbatim>\<open>
  ground_truth = propdict_pH3['mean_intensity'] > 20
  \<close>
  The mean intensities are floats; each stands for the real number it denotes (the
  mean of the pixels of a region is a finite number). The dictionary is read at one
  key, whose array is an array of numbers.
\<close>

definition create_ground_truth :: "(string \<times> real list) list \<Rightarrow> error + bool list" where
  "create_ground_truth propdict_pH3 =
     (case map_of propdict_pH3 ''mean_intensity'' of
        None \<Rightarrow> Inl KeyError
      | Some mean_intensity \<Rightarrow> Inr (map (\<lambda>v. 20 < v) mean_intensity))"

text \<open>
  \<^verbatim>\<open>
  svc = svm.SVC()
  svc.fit(propdf_stand, ground_truth)
  \<close>
  The training of the library is a parameter \<open>fit\<close>, from the features and the labels
  to the trained classifier.
\<close>

definition train_classifier ::
  "(real list list \<Rightarrow> bool list \<Rightarrow> 'm) \<Rightarrow> real list list \<Rightarrow> (string \<times> real list) list \<Rightarrow> error + 'm" where
  "train_classifier fit propdf_stand propdict_pH3 =
     (case create_ground_truth propdict_pH3 of
        Inl e \<Rightarrow> Inl e
      | Inr ground_truth \<Rightarrow> Inr (fit propdf_stand ground_truth))"

section \<open>Properties of the object-oriented notebook\<close>

subsection \<open>Instances and their attributes\<close>

lemma getattr_new_instance:
  "new_instance cls d s0 = (ref, s) \<Longrightarrow> d attr = Some v \<Longrightarrow> getattr s ref attr = Inr v"
  by (auto simp: new_instance_def alloc_def getattr_def)

subsection \<open>Complex\<close>

text \<open>
  C3: \<open>x = Complex()\<close> fails with the TypeError of the missing positional arguments
  and the cell ends with that error; with both arguments given the construction
  succeeds and the instance has \<open>x.r\<close> equal to \<open>realpart\<close> and \<open>x.i\<close> equal to
  \<open>imagpart\<close>.
\<close>

theorem Complex_construction:
  "Complex_call cls [] s = Inl TypeError
   \<and> cell_x_Complex [] s = Inl TypeError
   \<and> (\<exists>x s'. cell_x_Complex [realpart, imagpart] s = Inr (x, s')
          \<and> getattr s' x ''r'' = Inr realpart
          \<and> getattr s' x ''i'' = Inr imagpart)"
  by (simp add: Complex_call_def cell_x_Complex_def Complex_init_def getattr_def
      new_class_def new_instance_def alloc_def split: prod.splits)

theorem Complex_construction_witness:
  "Complex_call 0 [] init_state = Inl TypeError
   \<and> cell_x_Complex [] init_state = Inl TypeError
   \<and> (\<exists>x s'. cell_x_Complex [PFloat 1.1, PFloat (- 2.3)] init_state = Inr (x, s')
          \<and> getattr s' x ''r'' = Inr (PFloat 1.1)
          \<and> getattr s' x ''i'' = Inr (PFloat (- 2.3)))"
  using Complex_construction [of 0 init_state "PFloat 1.1" "PFloat (- 2.3)"]
  by simp

subsection \<open>Dog\<close>

text \<open>
  C2: the list of the class attribute \<open>tricks\<close> is shared by all instances. After
  \<open>d = Dog(n1)\<close>, \<open>e = Dog(n2)\<close>, \<open>d.add_trick(t1)\<close>, \<open>e.add_trick(t2)\<close> and
  \<open>e.kind = 'super-dog'\<close>, the two instances are distinct objects, \<open>d.tricks\<close> and
  \<open>e.tricks\<close> are the same list object, which holds \<open>t1\<close> and \<open>t2\<close> in that order,
  \<open>d.kind\<close> is still \<open>'canine'\<close> and \<open>e.kind\<close> is \<open>'super-dog'\<close>.
\<close>

theorem Dog_tricks_shared:
  "\<exists>d e s. cell_Dog n1 n2 t1 t2 s0 = Inr (d, e, s) \<and> d \<noteq> e
     \<and> list_attr s d ''tricks'' = Inr [t1, t2]
     \<and> list_attr s e ''tricks'' = Inr [t1, t2]
     \<and> getattr s d ''tricks'' = getattr s e ''tricks''
     \<and> getattr s d ''kind'' = Inr (PStr (str ''canine''))
     \<and> getattr s e ''kind'' = Inr (PStr (str ''super-dog''))"
  by (simp add: cell_Dog_def class_Dog_def Dog_call_def Dog_init_def Dog_add_trick_def
      list_append_def list_attr_def getattr_def class_attr_def setattr_def new_class_def
      new_instance_def alloc_def)

theorem Dog_tricks_shared_witness:
  "\<exists>d e s. cell_Dog (PStr (str ''Fido'')) (PStr (str ''Buddy''))
               (PStr (str ''roll over'')) (PStr (str ''play dead'')) init_state = Inr (d, e, s)
     \<and> d \<noteq> e
     \<and> list_attr s d ''tricks'' = Inr [PStr (str ''roll over''), PStr (str ''play dead'')]
     \<and> list_attr s e ''tricks'' = Inr [PStr (str ''roll over''), PStr (str ''play dead'')]
     \<and> getattr s d ''tricks'' = getattr s e ''tricks''
     \<and> getattr s d ''kind'' = Inr (PStr (str ''canine''))
     \<and> getattr s e ''kind'' = Inr (PStr (str ''super-dog''))"
  using Dog_tricks_shared [of "PStr (str ''Fido'')" "PStr (str ''Buddy'')"
      "PStr (str ''roll over'')" "PStr (str ''play dead'')" init_state]
  by simp

subsection \<open>Reverser\<close>

lemma mangle_private: "mangle ''Reverser'' ''__private'' = ''_Reverser__private''"
  by (simp add: mangle_def)

lemma mangle_public: "mangle ''Reverser'' ''public'' = ''public''"
  by (simp add: mangle_def)

text \<open>
  C1: in the class body of \<open>Reverser\<close> the attribute \<open>__private\<close> is mangled to
  \<open>_Reverser__private\<close>. After \<open>x = Reverser(name)\<close> the instance has no attribute
  under the plain name \<open>__private\<close>; the assignment \<open>x.__private = v\<close> from outside
  creates it with the value \<open>v\<close>, while \<open>x._Reverser__private\<close> is \<open>name[::-1]\<close>
  before and after, and \<open>x.get_reverse()\<close> returns \<open>name[::-1]\<close> before and after.
\<close>

theorem Reverser_name_mangling:
  "mangle ''Reverser'' ''__private'' = ''_Reverser__private''
   \<and> (\<exists>x s2 s3. cell_Reverser_new name s0 = (x, s2)
        \<and> cell_Reverser name v s0 = Inr (x, s3)
        \<and> getattr s2 x ''__private'' = Inl AttributeError
        \<and> getattr s2 x ''_Reverser__private'' = Inr (PStr (rev name))
        \<and> Reverser_get_reverse x s2 = Inr (PStr (rev name))
        \<and> getattr s3 x ''__private'' = Inr v
        \<and> getattr s3 x ''_Reverser__private'' = Inr (PStr (rev name))
        \<and> Reverser_get_reverse x s3 = Inr (PStr (rev name)))"
  by (simp add: mangle_private mangle_public cell_Reverser_def cell_Reverser_new_def
      Reverser_call_def Reverser_init_def Reverser_get_reverse_def getattr_def class_attr_def
      setattr_def new_class_def new_instance_def alloc_def)

theorem Reverser_name_mangling_witness:
  "mangle ''Reverser'' ''__private'' = ''_Reverser__private''
   \<and> (\<exists>x s2 s3. cell_Reverser_new (str ''hello world'') init_state = (x, s2)
        \<and> cell_Reverser (str ''hello world'') (PStr (str ''luddism'')) init_state = Inr (x, s3)
        \<and> getattr s2 x ''__private'' = Inl AttributeError
        \<and> getattr s2 x ''_Reverser__private'' = Inr (PStr (str ''dlrow olleh''))
        \<and> Reverser_get_reverse x s2 = Inr (PStr (str ''dlrow olleh''))
        \<and> getattr s3 x ''__private'' = Inr (PStr (str ''luddism''))
        \<and> getattr s3 x ''_Reverser__private'' = Inr (PStr (str ''dlrow olleh''))
        \<and> Reverser_get_reverse x s3 = Inr (PStr (str ''dlrow olleh'')))"
  using Reverser_name_mangling [of "str ''hello world''" init_state "PStr (str ''luddism'')"]
  by (simp add: str_def)

subsection \<open>Dna\<close>

lemma str_bases: "str ''ACGTacgt'' = [65, 67, 71, 84, 97, 99, 103, 116]"
  by (simp add: str_def)

lemma str_complements: "str ''TGCAtgca'' = [84, 71, 67, 65, 116, 103, 99, 97]"
  by (simp add: str_def)

lemma maketrans_defined: "\<exists>table. maketrans (str ''ACGTacgt'') (str ''TGCAtgca'') = Inr table"
  by (simp add: maketrans_def str_bases str_complements)

lemma translation_table_complement:
  assumes "maketrans (str ''ACGTacgt'') (str ''TGCAtgca'') = Inr table"
  shows "(case table c of None \<Rightarrow> c | Some d \<Rightarrow> d) = complement_base c"
proof -
  have "table = [65 \<mapsto> 84, 67 \<mapsto> 71, 71 \<mapsto> 67, 84 \<mapsto> 65,
                 97 \<mapsto> 116, 99 \<mapsto> 103, 103 \<mapsto> 99, 116 \<mapsto> 97]"
    using assms by (simp add: maketrans_def str_bases str_complements)
  then show ?thesis
    by (simp add: complement_base_def)
qed

lemma translate_complement:
  "maketrans (str ''ACGTacgt'') (str ''TGCAtgca'') = Inr table \<Longrightarrow>
   translate table sq = map complement_base sq"
  by (simp add: translate_def translation_table_complement)

lemma complement_base_involution: "complement_base (complement_base c) = c"
  by (simp add: complement_base_def)

text \<open>
  C8: for a \<open>Dna\<close> instance whose sequence has only characters of \<open>'ACGTacgt'\<close>,
  \<open>reverse_complement\<close> returns the reverse of the character-wise complement of the
  sequence and leaves the state as it was, so \<open>self.name\<close> and \<open>self.sequence\<close> are
  unchanged; a new \<open>Dna\<close> built from the returned string gives the original sequence
  back.
\<close>

theorem Dna_reverse_complement_involution:
  assumes bases: "set sq \<subseteq> set (str ''ACGTacgt'')"
    and dna: "Dna_call cls name (PStr sq) s0 = (dna, s)"
  shows "Dna_reverse_complement dna s = Inr (PStr (rev (map complement_base sq)), s)
     \<and> getattr s dna ''name'' = Inr name
     \<and> getattr s dna ''sequence'' = Inr (PStr sq)
     \<and> (\<exists>dna2 s2. Dna_call cls name2 (PStr (rev (map complement_base sq))) s = (dna2, s2)
           \<and> Dna_reverse_complement dna2 s2 = Inr (PStr sq, s2))"
proof -
  obtain table where table: "maketrans (str ''ACGTacgt'') (str ''TGCAtgca'') = Inr table"
    using maketrans_defined by blast
  have revcomp: "Dna_reverse_complement ref st = Inr (PStr (rev (map complement_base q)), st)"
    if "getattr st ref ''sequence'' = Inr (PStr q)" for ref st q
    using that table by (simp add: Dna_reverse_complement_def translate_complement)
  have nm: "getattr s dna ''name'' = Inr name"
    using dna by (auto simp: Dna_call_def Sequence_init_def intro: getattr_new_instance)
  have sq: "getattr s dna ''sequence'' = Inr (PStr sq)"
    using dna by (auto simp: Dna_call_def Sequence_init_def intro: getattr_new_instance)
  obtain dna2 s2
    where dna2: "Dna_call cls name2 (PStr (rev (map complement_base sq))) s = (dna2, s2)"
    by (cases "Dna_call cls name2 (PStr (rev (map complement_base sq))) s")
  have sq2: "getattr s2 dna2 ''sequence'' = Inr (PStr (rev (map complement_base sq)))"
    using dna2 by (auto simp: Dna_call_def Sequence_init_def intro: getattr_new_instance)
  have "rev (map complement_base (rev (map complement_base sq))) = sq"
    by (simp add: rev_map comp_def complement_base_involution)
  with revcomp [OF sq2] have again: "Dna_reverse_complement dna2 s2 = Inr (PStr sq, s2)"
    by simp
  show ?thesis
    using revcomp [OF sq] nm sq dna2 again by simp
qed

theorem Dna_reverse_complement_involution_witness:
  "set (str ''ACTGCGACCAAGACATAG'') \<subseteq> set (str ''ACGTacgt'')
   \<and> (\<exists>dna s. Dna_call 0 (PStr (str ''gene1'')) (PStr (str ''ACTGCGACCAAGACATAG'')) init_state = (dna, s)
        \<and> Dna_reverse_complement dna s = Inr (PStr (str ''CTATGTCTTGGTCGCAGT''), s)
        \<and> getattr s dna ''name'' = Inr (PStr (str ''gene1''))
        \<and> getattr s dna ''sequence'' = Inr (PStr (str ''ACTGCGACCAAGACATAG''))
        \<and> (\<exists>dna2 s2. Dna_call 0 (PStr (str ''gene1'')) (PStr (str ''CTATGTCTTGGTCGCAGT'')) s = (dna2, s2)
              \<and> Dna_reverse_complement dna2 s2 = Inr (PStr (str ''ACTGCGACCAAGACATAG''), s2)))"
proof -
  have bases: "set (str ''ACTGCGACCAAGACATAG'') \<subseteq> set (str ''ACGTacgt'')"
    by (simp add: str_def)
  obtain dna s
    where dna: "Dna_call 0 (PStr (str ''gene1'')) (PStr (str ''ACTGCGACCAAGACATAG'')) init_state = (dna, s)"
    by (cases "Dna_call 0 (PStr (str ''gene1'')) (PStr (str ''ACTGCGACCAAGACATAG'')) init_state")
  have revcomp: "rev (map complement_base (str ''ACTGCGACCAAGACATAG'')) = str ''CTATGTCTTGGTCGCAGT''"
    by (simp add: str_def complement_base_def)
  show ?thesis
    using Dna_reverse_complement_involution [OF bases dna, of "PStr (str ''gene1'')"] bases dna
    by (simp add: revcomp)
qed

subsection \<open>Protein\<close>

text \<open>
  C9: with the overloaded \<open>__eq__\<close>, \<open>p1 == p2\<close> is what \<open>p1.sequence == p2.sequence\<close>
  is, for every two instances and whatever their names are. Two instances built one
  after the other are distinct objects (the default \<open>__eq__\<close> of \<open>object\<close> tells them
  apart); their sequences being strings, on which \<open>==\<close> is the equality of the
  strings, they compare equal exactly when the sequences are equal, so two instances
  built from equal arguments compare equal.
\<close>

theorem Protein_eq_by_sequence:
  assumes cell: "cell_Protein n1 q1 n2 q2 s0 = (p1, p2, s)"
    and strings: "\<forall>st a b. value_eq st (PStr a) (PStr b) = Inr (PBool (a = b))"
  shows "p1 \<noteq> p2 \<and> \<not> object_eq p1 p2
     \<and> getattr s p1 ''name'' = Inr n1 \<and> getattr s p2 ''name'' = Inr n2
     \<and> getattr s p1 ''sequence'' = Inr q1 \<and> getattr s p2 ''sequence'' = Inr q2
     \<and> Protein_eq value_eq s p1 p2 = value_eq s q1 q2
     \<and> (\<forall>a b. q1 = PStr a \<and> q2 = PStr b \<longrightarrow>
           Protein_eq value_eq s p1 p2 = Inr (PBool (a = b)))
     \<and> (\<forall>a. q1 = PStr a \<and> q2 = PStr a \<longrightarrow> Protein_eq value_eq s p1 p2 = Inr (PBool True))
     \<and> (\<forall>st a b x y. getattr st a ''sequence'' = Inr x \<and> getattr st b ''sequence'' = Inr y
           \<longrightarrow> Protein_eq value_eq st a b = value_eq st x y)"
proof -
  have general: "Protein_eq value_eq st a b = value_eq st x y"
    if "getattr st a ''sequence'' = Inr x" and "getattr st b ''sequence'' = Inr y"
    for st a b x y
    using that by (simp add: Protein_eq_def)
  have built: "p1 \<noteq> p2 \<and> getattr s p1 ''name'' = Inr n1 \<and> getattr s p2 ''name'' = Inr n2
      \<and> getattr s p1 ''sequence'' = Inr q1 \<and> getattr s p2 ''sequence'' = Inr q2"
    using cell
    by (auto simp: cell_Protein_def Protein_call_def Sequence_init_def getattr_def
        new_class_def new_instance_def alloc_def)
  then have eq: "Protein_eq value_eq s p1 p2 = value_eq s q1 q2"
    by (simp add: general)
  show ?thesis
    using built eq general strings by (simp add: object_eq_def)
qed

theorem Protein_eq_by_sequence_witness:
  "(\<forall>st a b. (\<lambda>st x y. Inr (PBool (x = y))) st (PStr a) (PStr b) = (Inr (PBool (a = b)) :: error + pyval))
   \<and> (\<exists>p1 p2 s.
        cell_Protein (PStr (str ''prot1'')) (PStr (str ''MPNFFIDRPIFAWVIAIIIMLAGGLAILKLPVAQYPTIAP''))
          (PStr (str ''prot1'')) (PStr (str ''MPNFFIDRPIFAWVIAIIIMLAGGLAILKLPVAQYPTIAP'')) init_state
          = (p1, p2, s)
      \<and> p1 \<noteq> p2 \<and> \<not> object_eq p1 p2
      \<and> Protein_eq (\<lambda>st x y. Inr (PBool (x = y))) s p1 p2 = Inr (PBool True))"
proof -
  let ?eq = "\<lambda>(st :: pystate) (x :: pyval) (y :: pyval). (Inr (PBool (x = y)) :: error + pyval)"
  have strings: "\<forall>st a b. ?eq st (PStr a) (PStr b) = Inr (PBool (a = b))"
    by simp
  obtain p1 p2 s
    where cell: "cell_Protein (PStr (str ''prot1'')) (PStr (str ''MPNFFIDRPIFAWVIAIIIMLAGGLAILKLPVAQYPTIAP''))
        (PStr (str ''prot1'')) (PStr (str ''MPNFFIDRPIFAWVIAIIIMLAGGLAILKLPVAQYPTIAP'')) init_state = (p1, p2, s)"
    using prod_cases3 by blast
  from Protein_eq_by_sequence [OF cell strings]
  have "p1 \<noteq> p2 \<and> \<not> object_eq p1 p2 \<and> Protein_eq ?eq s p1 p2 = Inr (PBool True)"
    by simp
  with cell show ?thesis
    by auto
qed

section \<open>Properties of the image-analysis notebook\<close>

subsection \<open>Shapes and pixels\<close>

lemma same_shape_length: "same_shape a b \<Longrightarrow> length a = length b"
  unfolding same_shape_def by (rule map_eq_imp_length_eq)

lemma same_shape_row: "same_shape a b \<Longrightarrow> r < length a \<Longrightarrow> length (a ! r) = length (b ! r)"
proof -
  assume s: "same_shape a b" and r: "r < length a"
  then have "map length a ! r = map length b ! r"
    by (simp add: same_shape_def)
  with r same_shape_length [OF s] show ?thesis by simp
qed

lemma same_shape_inside: "same_shape a b \<Longrightarrow> inside a r c = inside b r c"
  by (auto simp: inside_def same_shape_length same_shape_row)

lemma same_shape_map2: "same_shape a b \<Longrightarrow> same_shape (map2 (map2 f) a b) a"
proof -
  assume s: "same_shape a b"
  have "map length (map2 (map2 f) a b) = map length a"
  proof (rule nth_equalityI)
    show "length (map length (map2 (map2 f) a b)) = length (map length a)"
      using same_shape_length [OF s] by simp
  next
    fix i assume "i < length (map length (map2 (map2 f) a b))"
    then have i: "i < length a" "i < length b" by simp_all
    then show "map length (map2 (map2 f) a b) ! i = map length a ! i"
      using same_shape_row [OF s, of i] by simp
  qed
  then show ?thesis by (simp add: same_shape_def)
qed

lemma pixel_map2:
  assumes "same_shape a b" and "inside a r c"
  shows "pixel (map2 (map2 f) a b) r c = f (pixel a r c) (pixel b r c)"
proof -
  from assms have r: "r < length a" "r < length b"
    and c: "c < length (a ! r)" "c < length (b ! r)"
    using same_shape_length [of a b] same_shape_row [of a b r] by (auto simp: inside_def)
  show ?thesis using r c by (simp add: pixel_def)
qed

lemma pixel_img_map: "inside a r c \<Longrightarrow> pixel (img_map f a) r c = f (pixel a r c)"
  by (simp add: pixel_def img_map_def inside_def)

lemma same_shape_img_map: "same_shape (img_map f a) a"
  by (simp add: same_shape_def img_map_def comp_def)

lemma same_shape_sym: "same_shape a b \<Longrightarrow> same_shape b a"
  by (simp add: same_shape_def)

lemma same_shape_trans: "same_shape a b \<Longrightarrow> same_shape b c \<Longrightarrow> same_shape a c"
  by (simp add: same_shape_def)

subsection \<open>Background subtraction and threshold\<close>

text \<open>
  C4: for a smoothed image and a local background of the same shape, the background
  subtraction succeeds; at every pixel position where \<open>nuc_smooth\<close> is strictly below
  \<open>nuc_smooth_bg\<close> the image \<open>nuc_smooth_bgsub\<close> is 0 (elsewhere it is the
  difference), and \<open>nuc_mask\<close> is true at exactly the positions where
  \<open>nuc_smooth_bgsub\<close> is strictly greater than 10.
\<close>

theorem background_subtraction_threshold:
  assumes shape: "same_shape nuc_smooth nuc_smooth_bg"
  shows "\<exists>nuc_smooth_bgsub.
      background_subtraction nuc_smooth nuc_smooth_bg = Inr nuc_smooth_bgsub
    \<and> same_shape nuc_smooth_bgsub nuc_smooth
    \<and> same_shape (apply_threshold nuc_smooth_bgsub) nuc_smooth
    \<and> (\<forall>r c. inside nuc_smooth r c \<longrightarrow>
          (pixel nuc_smooth r c < pixel nuc_smooth_bg r c \<longrightarrow> pixel nuc_smooth_bgsub r c = 0)
        \<and> (\<not> pixel nuc_smooth r c < pixel nuc_smooth_bg r c \<longrightarrow>
             pixel nuc_smooth_bgsub r c = pixel nuc_smooth r c - pixel nuc_smooth_bg r c)
        \<and> (pixel (apply_threshold nuc_smooth_bgsub) r c \<longleftrightarrow> 10 < pixel nuc_smooth_bgsub r c))"
proof -
  define diff where "diff = map2 (map2 (\<lambda>x y. x - y)) nuc_smooth nuc_smooth_bg"
  define below where "below = map2 (map2 (\<lambda>x y. x < y)) nuc_smooth nuc_smooth_bg"
  define bgsub where "bgsub = map2 (map2 (\<lambda>x m. if m then 0 else x)) diff below"
  have diff_shape: "same_shape diff nuc_smooth"
    unfolding diff_def by (rule same_shape_map2 [OF shape])
  have below_shape: "same_shape below nuc_smooth"
    unfolding below_def by (rule same_shape_map2 [OF shape])
  have db: "same_shape diff below"
    using diff_shape below_shape by (blast intro: same_shape_trans same_shape_sym)
  have bgsub_shape: "same_shape bgsub nuc_smooth"
    unfolding bgsub_def using same_shape_map2 [OF db] diff_shape by (rule same_shape_trans)
  have run: "background_subtraction nuc_smooth nuc_smooth_bg = Inr bgsub"
    using shape db
    by (simp add: background_subtraction_def elementwise_def masked_assign_def
        diff_def [symmetric] below_def [symmetric] bgsub_def)
  have px: "pixel bgsub r c =
      (if pixel nuc_smooth r c < pixel nuc_smooth_bg r c then 0
       else pixel nuc_smooth r c - pixel nuc_smooth_bg r c)"
    if ins: "inside nuc_smooth r c" for r c
  proof -
    have "inside diff r c"
      using ins same_shape_inside [OF diff_shape] by simp
    then have "pixel bgsub r c = (if pixel below r c then 0 else pixel diff r c)"
      unfolding bgsub_def by (simp add: pixel_map2 [OF db])
    then show ?thesis
      using ins by (simp add: diff_def below_def pixel_map2 [OF shape])
  qed
  have thr: "pixel (apply_threshold bgsub) r c \<longleftrightarrow> 10 < pixel bgsub r c"
    if ins: "inside nuc_smooth r c" for r c
  proof -
    have "inside bgsub r c"
      using ins same_shape_inside [OF bgsub_shape] by simp
    then show ?thesis
      by (simp add: apply_threshold_def pixel_img_map)
  qed
  have mask_shape: "same_shape (apply_threshold bgsub) nuc_smooth"
    unfolding apply_threshold_def
    using same_shape_img_map bgsub_shape by (rule same_shape_trans)
  show ?thesis
    using run bgsub_shape mask_shape px thr by auto
qed

theorem background_subtraction_threshold_witness:
  "same_shape [[30, 5], [200, 12 :: 8 word]] [[10, 9], [100, 1 :: 8 word]]
   \<and> background_subtraction [[30, 5], [200, 12 :: 8 word]] [[10, 9], [100, 1]] = Inr [[20, 0], [100, 11]]
   \<and> apply_threshold [[20, 0], [100, 11 :: 8 word]] = [[True, False], [True, True]]
   \<and> inside [[30, 5], [200, 12 :: 8 word]] 0 1
   \<and> pixel [[30, 5], [200, 12 :: 8 word]] 0 1 < pixel [[10, 9], [100, 1 :: 8 word]] 0 1
   \<and> (\<exists>nuc_smooth_bgsub.
         background_subtraction [[30, 5], [200, 12 :: 8 word]] [[10, 9], [100, 1]] = Inr nuc_smooth_bgsub
       \<and> pixel nuc_smooth_bgsub 0 1 = 0
       \<and> \<not> pixel (apply_threshold nuc_smooth_bgsub) 0 1)"
proof -
  let ?smooth = "[[30, 5], [200, 12 :: 8 word]]"
  let ?bg = "[[10, 9], [100, 1 :: 8 word]]"
  have shape: "same_shape ?smooth ?bg"
    by (simp add: same_shape_def)
  have ins: "inside ?smooth 0 1"
    by (simp add: inside_def)
  have below: "pixel ?smooth 0 1 < pixel ?bg 0 1"
    by (simp add: pixel_def)
  from background_subtraction_threshold [OF shape] obtain bgsub
    where run: "background_subtraction ?smooth ?bg = Inr bgsub"
      and zero: "pixel ?smooth 0 1 < pixel ?bg 0 1 \<longrightarrow> pixel bgsub 0 1 = 0"
      and thr: "pixel (apply_threshold bgsub) 0 1 \<longleftrightarrow> 10 < pixel bgsub 0 1"
    using ins by blast
  from zero below have z: "pixel bgsub 0 1 = 0" by simp
  with thr have "\<not> pixel (apply_threshold bgsub) 0 1" by simp
  moreover have "background_subtraction ?smooth ?bg = Inr [[20, 0], [100, 11]]"
    by (simp add: background_subtraction_def elementwise_def masked_assign_def same_shape_def)
  moreover have "apply_threshold [[20, 0], [100, 11 :: 8 word]] = [[True, False], [True, True]]"
    by (simp add: apply_threshold_def img_map_def)
  ultimately show ?thesis
    using shape ins below run z by blast
qed

subsection \<open>Seeds, watershed and background removal\<close>

lemma map2_mask_self: "map2 (\<lambda>x m. if m then v else x) xs (map P xs) = map (\<lambda>x. if P x then v else x) xs"
  by (induction xs) simp_all

lemma masked_assign_self:
  "masked_assign a (img_map P a) v = Inr (img_map (\<lambda>x. if P x then v else x) a)"
proof -
  have "map2 (map2 (\<lambda>x m. if m then v else x)) a (map (map P) a) = map (map (\<lambda>x. if P x then v else x)) a"
    by (induction a) (simp_all add: map2_mask_self)
  then show ?thesis
    by (simp add: masked_assign_def img_map_def same_shape_def comp_def)
qed

lemma pixels_img_map: "pixels (img_map f a) = map f (pixels a)"
  by (simp add: pixels_def img_map_def map_concat)

lemma set_map2_mask: "set (map2 (\<lambda>x m. if m then v else x) xs ms) \<subseteq> insert v (set xs)"
proof (induction xs arbitrary: ms)
  case Nil
  show ?case by simp
next
  case (Cons x xs)
  show ?case
  proof (cases ms)
    case Nil
    then show ?thesis by simp
  next
    case (Cons m ms')
    with Cons.IH [of ms'] show ?thesis by auto
  qed
qed

lemma set_concat_map2_mask:
  "set (concat (map2 (map2 (\<lambda>x m. if m then v else x)) a selected)) \<subseteq> insert v (set (concat a))"
proof (induction a arbitrary: selected)
  case Nil
  show ?case by simp
next
  case (Cons row a)
  show ?case
  proof (cases selected)
    case Nil
    then show ?thesis by simp
  next
    case (Cons ms selected')
    have "set (map2 (\<lambda>x m. if m then v else x) row ms) \<subseteq> insert v (set row)"
      by (rule set_map2_mask)
    with Cons.IH [of selected'] Cons show ?thesis
      by (simp del: set_map) blast
  qed
qed

lemma pixels_masked_assign:
  assumes "masked_assign a selected v = Inr b"
  shows "set (pixels b) \<subseteq> insert v (set (pixels a))"
proof -
  have "b = map2 (map2 (\<lambda>x m. if m then v else x)) a selected"
    using assms by (auto simp: masked_assign_def split: if_splits)
  then show ?thesis
    unfolding pixels_def by (simp only: set_concat_map2_mask)
qed

lemma smax_fold_lower: "sint x \<le> sint (fold smax xs x)"
proof (induction xs arbitrary: x)
  case Nil
  show ?case by simp
next
  case (Cons a xs)
  have "sint x \<le> sint (smax a x)"
    by (simp add: smax_def)
  also have "\<dots> \<le> sint (fold smax xs (smax a x))"
    by (rule Cons.IH)
  finally show ?case by simp
qed

lemma smax_fold_upper: "y \<in> set xs \<Longrightarrow> sint y \<le> sint (fold smax xs x)"
proof (induction xs arbitrary: x)
  case Nil
  then show ?case by simp
next
  case (Cons a xs)
  show ?case
  proof (cases "y = a")
    case True
    have "sint a \<le> sint (smax a x)"
      by (simp add: smax_def)
    also have "\<dots> \<le> sint (fold smax xs (smax a x))"
      by (rule smax_fold_lower)
    finally show ?thesis using True by simp
  next
    case False
    with Cons.prems have "y \<in> set xs" by simp
    from Cons.IH [OF this] show ?thesis by simp
  qed
qed

lemma img_max_upper: "img_max a = Inr m \<Longrightarrow> p \<in> set (pixels a) \<Longrightarrow> sint p \<le> sint m"
proof -
  assume "img_max a = Inr m" and p: "p \<in> set (pixels a)"
  then obtain x xs where px: "pixels a = x # xs" and m: "m = fold smax xs x"
    by (auto simp: img_max_def split: list.splits)
  from p px have "p = x \<or> p \<in> set xs" by simp
  then show ?thesis
    using smax_fold_lower [of x xs] smax_fold_upper [of p xs x] m by auto
qed

lemma img_max_member: "img_max a = Inr m \<Longrightarrow> m \<in> set (pixels a)"
proof -
  have fold_member: "fold smax xs x \<in> set (x # xs)" for xs x
  proof (induction xs arbitrary: x)
    case Nil
    show ?case by simp
  next
    case (Cons a xs)
    from Cons.IH [of "smax a x"] show ?case
      by (auto simp: smax_def split: if_splits)
  qed
  assume "img_max a = Inr m"
  then obtain x xs where "pixels a = x # xs" and "m = fold smax xs x"
    by (auto simp: img_max_def split: list.splits)
  with fold_member [of xs x] show ?thesis by simp
qed

lemma img_max_defined: "pixels a \<noteq> [] \<Longrightarrow> \<exists>m. img_max a = Inr m"
  by (simp add: img_max_def split: list.splits)

text \<open>Below the greatest 32-bit number the sum does not wrap, whatever type it has.\<close>

lemma sint_plus_one:
  fixes m :: int32
  assumes "sint m < 2147483647"
  shows "sint (m + 1) = sint m + 1"
proof -
  have "- 2147483648 \<le> sint m"
    using sint_ge [of m] by simp
  with assms show ?thesis
    by (simp add: sint_word_ariths signed_take_bit_int_eq_self)
qed

lemma max_plus_one_exact:
  assumes "sint m < 2147483647"
  shows "max_plus_one pr m = sint m + 1"
    and "sint (word_of_int (max_plus_one pr m) :: int32) = sint m + 1"
proof -
  show v: "max_plus_one pr m = sint m + 1"
    using assms by (cases pr) (simp_all add: max_plus_one_def sint_plus_one)
  have "(word_of_int (sint m + 1) :: int32) = m + 1"
    by simp
  with v show "sint (word_of_int (max_plus_one pr m) :: int32) = sint m + 1"
    using assms by (simp add: sint_plus_one)
qed

text \<open>
  At the greatest 32-bit number the sum is not the same in every numpy: kept in 32
  bits it wraps to the least number, widened it is one more than any pixel can hold,
  and the seed stored for it is the least number.
\<close>

lemma max_plus_one_at_limit:
  "max_plus_one KeepInt32 2147483647 = - 2147483648
   \<and> max_plus_one WidenInt64 2147483647 = 2147483648
   \<and> sint (word_of_int (max_plus_one WidenInt64 2147483647) :: int32) = - 2147483648"
  by (simp add: max_plus_one_def)

text \<open>
  C5: after the watershed and the removal of the background, no pixel of \<open>act_ws\<close>
  carries the background seed label \<open>nuc_labeled.max()+1\<close>; every pixel is 0 or a
  label between 1 and \<open>nuc_labeled.max()\<close> that occurs in the nucleus labelling. The
  library functions enter by what their documentation promises: the labels of
  \<open>ndi.label\<close> are not negative, and every label of the watershed result is 0 or a
  label of its seeds. The labels stay below the greatest 32-bit number (\<open>ndi.label\<close>
  numbers the nuclei from 1, so the greatest label is their count), where the sum
  \<open>nuc_labeled.max()+1\<close> is the same number in every numpy.
\<close>

theorem segmentation_labels:
  assumes ws: "\<forall>sd. set (pixels (watershed act_sobel sd)) \<subseteq> insert 0 (set (pixels sd))"
    and labels: "\<forall>p \<in> set (pixels nuc_labeled). 0 \<le> sint p \<and> sint p < 2147483647"
    and nonempty: "pixels nuc_labeled \<noteq> []"
    and shape: "same_shape nuc_labeled act_bgsub"
  shows "\<exists>m act_ws. img_max nuc_labeled = Inr m
     \<and> max_plus_one pr m = sint m + 1
     \<and> cell_segmentation pr watershed act_sobel nuc_labeled act_bgsub = Inr act_ws
     \<and> (\<forall>p \<in> set (pixels act_ws).
           sint p \<noteq> sint m + 1
         \<and> (p = 0 \<or> (1 \<le> sint p \<and> sint p \<le> sint m \<and> p \<in> set (pixels nuc_labeled))))"
proof -
  from img_max_defined [OF nonempty] obtain m where m: "img_max nuc_labeled = Inr m" ..
  from img_max_member [OF m] labels have bound: "0 \<le> sint m" "sint m < 2147483647"
    by auto
  define bg where "bg = max_plus_one pr m"
  have bg: "bg = sint m + 1"
    unfolding bg_def using bound(2) by (rule max_plus_one_exact)
  have stored: "sint (word_of_int bg :: int32) = sint m + 1"
    unfolding bg_def using bound(2) by (rule max_plus_one_exact)
  have "same_shape nuc_labeled (img_map (\<lambda>v. v = 0) act_bgsub)"
    using shape by (simp add: same_shape_def img_map_def comp_def)
  then obtain seeds where seeds: "prepare_seeds pr nuc_labeled act_bgsub = Inr seeds"
    and seeds_def: "masked_assign nuc_labeled (img_map (\<lambda>v. v = 0) act_bgsub) (word_of_int bg)
        = Inr seeds"
    using m by (simp add: prepare_seeds_def masked_assign_def bg_def)
  define flooded where "flooded = watershed act_sobel seeds"
  define act_ws where "act_ws = img_map (\<lambda>p. if sint p = bg then 0 else p) flooded"
  have run: "cell_segmentation pr watershed act_sobel nuc_labeled act_bgsub = Inr act_ws"
    using seeds m
    by (simp add: cell_segmentation_def remove_background_def masked_assign_self
        flooded_def act_ws_def bg_def)
  have seeds_px: "set (pixels seeds) \<subseteq> insert (word_of_int bg) (set (pixels nuc_labeled))"
    using seeds_def by (rule pixels_masked_assign)
  have flooded_px:
    "set (pixels flooded) \<subseteq> insert 0 (insert (word_of_int bg) (set (pixels nuc_labeled)))"
    using ws seeds_px unfolding flooded_def by blast
  have "sint p \<noteq> sint m + 1
      \<and> (p = 0 \<or> (1 \<le> sint p \<and> sint p \<le> sint m \<and> p \<in> set (pixels nuc_labeled)))"
    if "p \<in> set (pixels act_ws)" for p
  proof -
    from that obtain q where q: "q \<in> set (pixels flooded)"
      and p: "p = (if sint q = bg then 0 else q)"
      by (auto simp: act_ws_def pixels_img_map)
    show ?thesis
    proof (cases "sint q = bg \<or> q = 0")
      case True
      with p have "p = 0" by auto
      with bound(1) show ?thesis by simp
    next
      case False
      with stored bg have "q \<noteq> word_of_int bg" by auto
      with False q flooded_px have member: "q \<in> set (pixels nuc_labeled)" by blast
      with labels img_max_upper [OF m] have range: "0 \<le> sint q" "sint q \<le> sint m" by auto
      from False have "sint q \<noteq> 0"
        by (simp add: signed_eq_0_iff)
      with range False p member bg show ?thesis by auto
    qed
  qed
  with m run bg show ?thesis
    unfolding bg_def by blast
qed

theorem segmentation_labels_witness:
  "(\<forall>sd. set (pixels ((\<lambda>img sd. sd) [[0, 0], [0, 0 :: real]] sd)) \<subseteq> insert (0 :: int32) (set (pixels sd)))
   \<and> list_all (\<lambda>p. 0 \<le> sint p \<and> sint p < 2147483647) (pixels [[0, 1], [2, 0 :: int32]])
   \<and> pixels [[0, 1], [2, 0 :: int32]] \<noteq> []
   \<and> same_shape [[0, 1], [2, 0 :: int32]] [[0, 5], [7, 3 :: real]]
   \<and> prepare_seeds WidenInt64 [[0, 1], [2, 0]] [[0, 5], [7, 3 :: real]] = Inr [[3, 1], [2, 0]]
   \<and> cell_segmentation WidenInt64 (\<lambda>img sd. sd) [[0, 0], [0, 0 :: real]] [[0, 1], [2, 0]]
        [[0, 5], [7, 3 :: real]] = Inr [[0, 1], [2, 0]]
   \<and> cell_segmentation KeepInt32 (\<lambda>img sd. sd) [[0, 0], [0, 0 :: real]] [[0, 1], [2, 0]]
        [[0, 5], [7, 3 :: real]] = Inr [[0, 1], [2, 0]]
   \<and> (\<exists>m act_ws. img_max [[0, 1], [2, 0]] = Inr m
        \<and> cell_segmentation WidenInt64 (\<lambda>img sd. sd) [[0, 0], [0, 0 :: real]] [[0, 1], [2, 0]]
             [[0, 5], [7, 3 :: real]] = Inr act_ws
        \<and> (\<forall>p \<in> set (pixels act_ws).
              sint p \<noteq> sint m + 1 \<and> (p = 0 \<or> (1 \<le> sint p \<and> sint p \<le> sint m))))"
proof -
  let ?ws = "\<lambda>(img :: real image) (sd :: int32 image). sd"
  let ?sobel = "[[0, 0], [0, 0 :: real]]"
  let ?labeled = "[[0, 1], [2, 0 :: int32]]"
  let ?bgsub = "[[0, 5], [7, 3 :: real]]"
  have ws: "\<forall>sd. set (pixels (?ws ?sobel sd)) \<subseteq> insert 0 (set (pixels sd))"
    by auto
  have labels: "\<forall>p \<in> set (pixels ?labeled). 0 \<le> sint p \<and> sint p < 2147483647"
    by (simp add: pixels_def)
  have nonempty: "pixels ?labeled \<noteq> []"
    by (simp add: pixels_def)
  have shape: "same_shape ?labeled ?bgsub"
    by (simp add: same_shape_def)
  have mx: "img_max ?labeled = Inr 2"
    by (simp add: img_max_def pixels_def smax_def)
  have seeds: "prepare_seeds WidenInt64 ?labeled ?bgsub = Inr [[3, 1], [2, 0]]"
    by (simp add: prepare_seeds_def mx max_plus_one_def masked_assign_def img_map_def
        same_shape_def)
  have run64: "cell_segmentation WidenInt64 ?ws ?sobel ?labeled ?bgsub = Inr [[0, 1], [2, 0]]"
    by (simp add: cell_segmentation_def seeds remove_background_def mx max_plus_one_def
        masked_assign_def img_map_def same_shape_def)
  have run32: "cell_segmentation KeepInt32 ?ws ?sobel ?labeled ?bgsub = Inr [[0, 1], [2, 0]]"
    by (simp add: cell_segmentation_def prepare_seeds_def remove_background_def mx
        max_plus_one_def masked_assign_def img_map_def same_shape_def)
  from segmentation_labels [of ?ws ?sobel ?labeled ?bgsub WidenInt64, OF ws labels nonempty shape]
  have "\<exists>m act_ws. img_max ?labeled = Inr m
        \<and> cell_segmentation WidenInt64 ?ws ?sobel ?labeled ?bgsub = Inr act_ws
        \<and> (\<forall>p \<in> set (pixels act_ws).
              sint p \<noteq> sint m + 1 \<and> (p = 0 \<or> (1 \<le> sint p \<and> sint p \<le> sint m)))"
    by blast
  then show ?thesis
    using ws nonempty shape seeds run64 run32 by (simp add: pixels_def)
qed

subsection \<open>Ground truth\<close>

text \<open>
  C6: the labels handed to \<open>svc.fit\<close> are the ground truth of the threshold on the
  pH3 channel: there is one label for every nucleus, and the label of nucleus \<open>i\<close> is
  true if and only if \<open>propdict_pH3['mean_intensity'][i]\<close> is strictly greater than
  20.
\<close>

theorem ground_truth_threshold:
  assumes "map_of propdict_pH3 ''mean_intensity'' = Some mean_intensity"
  shows "\<exists>ground_truth. create_ground_truth propdict_pH3 = Inr ground_truth
     \<and> train_classifier fit propdf_stand propdict_pH3 = Inr (fit propdf_stand ground_truth)
     \<and> length ground_truth = length mean_intensity
     \<and> (\<forall>i < length mean_intensity. ground_truth ! i \<longleftrightarrow> 20 < mean_intensity ! i)"
  using assms by (simp add: create_ground_truth_def train_classifier_def)

theorem ground_truth_threshold_witness:
  "map_of [(''label'', [1, 2, 3]), (''mean_intensity'', [12.5, 20, 47.25 :: real])] ''mean_intensity''
     = Some [12.5, 20, 47.25]
   \<and> create_ground_truth [(''label'', [1, 2, 3]), (''mean_intensity'', [12.5, 20, 47.25])]
     = Inr [False, False, True]
   \<and> train_classifier (\<lambda>X y. (X, y)) [[0.5], [- 1], [0.5]]
       [(''label'', [1, 2, 3]), (''mean_intensity'', [12.5, 20, 47.25])]
     = Inr ([[0.5], [- 1], [0.5]], [False, False, True])"
proof -
  let ?propdict = "[(''label'', [1, 2, 3]), (''mean_intensity'', [12.5, 20, 47.25 :: real])]"
  have key: "map_of ?propdict ''mean_intensity'' = Some [12.5, 20, 47.25]"
    by simp
  from ground_truth_threshold [OF key, of "\<lambda>X y. (X, y)" "[[0.5], [- 1], [0.5]]"]
  obtain ground_truth where gt: "create_ground_truth ?propdict = Inr ground_truth"
    and fit: "train_classifier (\<lambda>X y. (X, y)) [[0.5], [- 1], [0.5]] ?propdict
        = Inr ([[0.5], [- 1], [0.5]], ground_truth)"
    by blast
  have "create_ground_truth ?propdict = Inr [False, False, True]"
    by (simp add: create_ground_truth_def)
  with gt fit key show ?thesis by simp
qed

subsection \<open>props2dict\<close>












end
